theory Spec2Isabelle
  imports Main "HOL-Library.AList"
begin

section \<open>Data model of the quiz-room server\<close>

text \<open>
  The server keeps three process-wide JavaScript \<^verbatim>\<open>Map\<close>s (\<^verbatim>\<open>quizRooms\<close>,
  \<^verbatim>\<open>players\<close>, \<^verbatim>\<open>userBadges\<close>) and one \<^verbatim>\<open>QuizRoom\<close> object per room.
  A \<^verbatim>\<open>Map\<close> iterates in insertion order and \<^verbatim>\<open>set\<close> on a present key keeps
  the key's place, so a \<^verbatim>\<open>Map\<close> is an association list: \<^verbatim>\<open>set\<close> is
  \<^const>\<open>AList.update\<close>, \<^verbatim>\<open>get\<close> is \<^const>\<open>map_of\<close>, \<^verbatim>\<open>delete\<close> is
  \<^const>\<open>AList.delete\<close>, \<^verbatim>\<open>size\<close> is \<^const>\<open>length\<close>.
  JavaScript numbers are modelled as integers; the value 0 of a numeric field also stands
  for a missing one wherever the source reads it through \<^verbatim>\<open>x || d\<close>.
\<close>

datatype gameState = Waiting | Playing | Finished

record question =
  correctAnswer :: int
  points :: int

datatype distribution = Top3 | Manual | OtherDistribution

record rewardInfo =
  suiAmount :: int
  distribution :: distribution
  manualPercentages :: "int list option"

record quiz_data =
  questions :: "question list"
  timePerQuestion :: nat
  maxPlayers :: nat
  rewardInfo :: rewardInfo

text \<open>The object stored by \<^verbatim>\<open>addPlayer\<close>; \<^verbatim>\<open>answers\<close> is a sparse array written by index.\<close>

record player =
  pid :: string
  nickname :: string
  address :: string
  score :: int
  answers :: "(int \<times> int) list"
  joinedAt :: int
  isReady :: bool

text \<open>\<^verbatim>\<open>{...player, position}\<close>, an element of \<^verbatim>\<open>room.leaderboard\<close>.\<close>

record ranked = player +
  position :: nat

text \<open>\<^verbatim>\<open>{address, nickname, score, position}\<close>, an element of a broadcast leaderboard.\<close>

record boardRow =
  row_address :: string
  row_nickname :: string
  row_score :: int
  row_position :: nat

record quizRoom =
  roomId :: string
  roomCode :: string
  quizData :: quiz_data
  hostAddress :: string
  players :: "(string \<times> player) list"
  gameState :: gameState
  currentQuestion :: nat
  timeRemaining :: nat
  leaderboard :: "ranked list"
  createdAt :: int
  startTime :: "int option"
  finishTime :: "int option"
  rewardsDistributed :: bool
  timerInterval :: bool

text \<open>An entry of the global \<^verbatim>\<open>players\<close> map: \<^verbatim>\<open>{roomId, nickname, address}\<close>.\<close>

record playerInfo =
  info_roomId :: string
  info_nickname :: string
  info_address :: string

text \<open>
  The badge object built in \<^verbatim>\<open>distributeRewardsAndBadges\<close> and pushed on
  \<^verbatim>\<open>userBadges\<close>. Its random identifier, its timestamp and its display strings (title,
  colour) are left out: no property below reads them.
\<close>

record userBadge =
  badgeType :: string
  rarity :: string
  badge_score :: int
  totalPossible :: int
  isSealed :: bool
  badge_position :: nat
  rewardPercentage :: int

text \<open>
  What a handler does to the outside: messages emitted on the event channel, and calls
  to the ledger and storage collaborators. The arguments are the fields of the payload
  that vary: \<^verbatim>\<open>error\<close> (message); \<^verbatim>\<open>player-joined\<close> (playerId, nickname, address,
  currentPlayers); \<^verbatim>\<open>leaderboard-update\<close> (leaderboard, totalPlayers); \<^verbatim>\<open>room-state\<close>
  (gameState, currentPlayers, leaderboard); \<^verbatim>\<open>quiz-started\<close> and \<^verbatim>\<open>next-question\<close>
  (question index, time), \<^verbatim>\<open>timer-update\<close> (timeRemaining, currentQuestion);
  \<^verbatim>\<open>answer-submitted\<close> (questionIndex, answer, isCorrect, points); \<^verbatim>\<open>quiz-finished\<close>
  (leaderboard, totalQuestions, totalPlayers); \<^verbatim>\<open>rewards-distributed\<close> (success,
  results.badges); \<^verbatim>\<open>quiz-stopped\<close> and \<^verbatim>\<open>host-disconnected\<close> (gameState);
  \<^verbatim>\<open>player-left\<close> (playerId, currentPlayers); then the calls
  \<^verbatim>\<open>distributeRewardsToWinners\<close> (winners, amounts), \<^verbatim>\<open>saveUserBadges\<close> (address,
  badges) and \<^verbatim>\<open>mintBadgeOnBlockchain\<close> (badge, address).
\<close>

datatype effect =
    ErrorMessage string
  | PlayerJoined string string string nat
  | LeaderboardUpdate "boardRow list" nat
  | RoomState gameState nat "boardRow list"
  | QuizStarted nat nat
  | TimerUpdate nat nat
  | NextQuestion nat nat
  | AnswerSubmitted int int bool int
  | QuizFinished "player list" nat int
  | RewardsDistributed bool "userBadge list"
  | QuizStopped gameState
  | HostDisconnected gameState
  | PlayerLeft string nat
  | LedgerDistribute "string list" "int list"
  | SaveUserBadges string "userBadge list"
  | MintBadge userBadge string

record server =
  quizRooms :: "(string \<times> quizRoom) list"
  socketPlayers :: "(string \<times> playerInfo) list"
  userBadges :: "(string \<times> userBadge list) list"

text \<open>\<^verbatim>\<open>x || d\<close> on a number.\<close>

definition orDefault :: "'a::zero \<Rightarrow> 'a \<Rightarrow> 'a" where
  "orDefault x d = (if x = 0 then d else x)"

text \<open>\<^verbatim>\<open>questions[i]\<close>: \<^verbatim>\<open>undefined\<close> outside the array.\<close>

definition questionAt :: "question list \<Rightarrow> int \<Rightarrow> question option" where
  "questionAt qs i = (if 0 \<le> i \<and> nat i < length qs then Some (qs ! nat i) else None)"

section \<open>The \<^verbatim>\<open>QuizRoom\<close> class\<close>

definition newQuizRoom :: "string \<Rightarrow> int \<Rightarrow> string \<Rightarrow> quiz_data \<Rightarrow> string \<Rightarrow> quizRoom" where
  "newQuizRoom uuid now code qd host =
     \<lparr> roomId = uuid, roomCode = code, quizData = qd, hostAddress = host, players = [],
       gameState = Waiting, currentQuestion = 0, timeRemaining = 0, leaderboard = [],
       createdAt = now, startTime = None, finishTime = None, rewardsDistributed = False,
       timerInterval = False \<rparr>"

definition addPlayer :: "int \<Rightarrow> string \<Rightarrow> string \<Rightarrow> string \<Rightarrow> quizRoom \<Rightarrow> quizRoom" where
  "addPlayer now playerId nick addr r =
     r\<lparr> players := AList.update playerId
           \<lparr> pid = playerId, nickname = nick, address = addr, score = 0, answers = [],
             joinedAt = now, isReady = False \<rparr> (players r) \<rparr>"

definition removePlayer :: "string \<Rightarrow> quizRoom \<Rightarrow> quizRoom" where
  "removePlayer playerId r = r\<lparr> players := AList.delete playerId (players r) \<rparr>"

text \<open>\<^verbatim>\<open>clearInterval\<close> of the old handle, then a new \<^verbatim>\<open>setInterval\<close>.\<close>

definition startTimerSync :: "quizRoom \<Rightarrow> quizRoom" where
  "startTimerSync r = r\<lparr> timerInterval := True \<rparr>"

definition startQuiz :: "int \<Rightarrow> quizRoom \<Rightarrow> quizRoom" where
  "startQuiz now r =
     startTimerSync
       (r\<lparr> gameState := Playing, currentQuestion := 0,
           timeRemaining := orDefault (timePerQuestion (quizData r)) 30,
           startTime := Some now \<rparr>)"

definition clearTimer :: "quizRoom \<Rightarrow> quizRoom" where
  "clearTimer r = r\<lparr> timerInterval := False \<rparr>"

definition resetQuiz :: "quizRoom \<Rightarrow> quizRoom" where
  "resetQuiz r =
     clearTimer (r\<lparr> gameState := Waiting, currentQuestion := 0, timeRemaining := 0,
                    players := [], leaderboard := [] \<rparr>)"

text \<open>
  \<^verbatim>\<open>Array.from(players.values()).filter(p => p.address !== hostAddress)
  .sort((a, b) => b.score - a.score)\<close>: the sort is stable, as \<^const>\<open>sort_key\<close> is.
\<close>

definition rankedPlayers :: "quizRoom \<Rightarrow> player list" where
  "rankedPlayers r =
     sort_key (\<lambda>p. - score p) (filter (\<lambda>p. address p \<noteq> hostAddress r) (map snd (players r)))"

definition calculateLeaderboard :: "quizRoom \<Rightarrow> quizRoom" where
  "calculateLeaderboard r =
     r\<lparr> leaderboard :=
          map (\<lambda>(p, i). player.extend p \<lparr> position = i + 1 \<rparr>)
              (zip (rankedPlayers r) [0 ..< length (rankedPlayers r)]) \<rparr>"

text \<open>The leaderboard sent with \<^verbatim>\<open>leaderboard-update\<close> and \<^verbatim>\<open>room-state\<close>.\<close>

definition broadcastLeaderboard :: "quizRoom \<Rightarrow> boardRow list" where
  "broadcastLeaderboard r =
     map (\<lambda>(p, i). \<lparr> row_address = address p, row_nickname = nickname p,
                      row_score = score p, row_position = i + 1 \<rparr>)
         (zip (rankedPlayers r) [0 ..< length (rankedPlayers r)])"

definition pointsEarned :: "question \<Rightarrow> int" where
  "pointsEarned q = orDefault (points q) 10"

text \<open>
  \<^verbatim>\<open>submitAnswer(playerId, questionIndex, answer)\<close>: \<^verbatim>\<open>None\<close> is the
  \<^verbatim>\<open>return false\<close> for a socket that is not a player of the room.
\<close>

definition submitAnswer :: "string \<Rightarrow> int \<Rightarrow> int \<Rightarrow> quizRoom \<Rightarrow> quizRoom option" where
  "submitAnswer playerId questionIndex answer r =
     (case map_of (players r) playerId of
        None \<Rightarrow> None
      | Some p \<Rightarrow>
          let earned = (case questionAt (questions (quizData r)) questionIndex of
                          None \<Rightarrow> 0
                        | Some q \<Rightarrow> if answer = correctAnswer q then pointsEarned q else 0);
              p' = p\<lparr> score := score p + earned,
                      answers := AList.update questionIndex answer (answers p) \<rparr>
          in Some (r\<lparr> players := AList.update playerId p' (players r) \<rparr>))"

text \<open>
  \<^verbatim>\<open>distributeSUIRewards\<close>: the winners and amounts sent to the ledger. \<^verbatim>\<open>slice\<close> and
  the indexed loop pair the ranked players with the percentages up to the shorter of the
  two, as \<^const>\<open>zip\<close> does; \<^verbatim>\<open>Math.floor\<close> of the quotient is \<^const>\<open>divide\<close> on
  integers.
\<close>

definition rewardShares :: "rewardInfo \<Rightarrow> player list \<Rightarrow> (string \<times> int) list" where
  "rewardShares ri lb =
     (let totalRewardAmount = suiAmount ri * 1000000000;
          percentages =
            (case distribution ri of
               Top3 \<Rightarrow> [50, 30, 20]
             | Manual \<Rightarrow> (case manualPercentages ri of None \<Rightarrow> [50, 30, 20] | Some ps \<Rightarrow> ps)
             | OtherDistribution \<Rightarrow> [])
      in map (\<lambda>(p, percentage). (address p, (totalRewardAmount * percentage) div 100))
             (zip lb percentages))"

text \<open>
  The argument \<open>ledgerOk\<close> is the \<^verbatim>\<open>success\<close> field of what the ledger collaborator
  \<^verbatim>\<open>distributeRewardsToWinners\<close> answers.
\<close>

definition distributeSUIRewards :: "bool \<Rightarrow> player list \<Rightarrow> quizRoom \<Rightarrow> quizRoom \<times> effect list" where
  "distributeSUIRewards ledgerOk lb r =
     (let shares = rewardShares (rewardInfo (quizData r)) lb in
      if shares \<noteq> [] then
        ((if ledgerOk then r\<lparr> rewardsDistributed := True \<rparr> else r),
         [LedgerDistribute (map fst shares) (map snd shares)])
      else (r, []))"

definition badgeFor :: "quizRoom \<Rightarrow> nat \<Rightarrow> player \<Rightarrow> userBadge" where
  "badgeFor r pos p =
     \<lparr> badgeType =
         (if pos = 1 then ''Quiz Champion'' else if pos = 2 then ''Quiz Runner-up''
          else if pos = 3 then ''Quiz Bronze'' else if 80 \<le> score p then ''Quiz Expert''
          else ''Participation''),
       rarity =
         (if pos = 1 then ''legendary'' else if pos = 2 then ''epic''
          else if pos = 3 then ''rare'' else if 80 \<le> score p then ''uncommon''
          else ''common''),
       badge_score = score p,
       totalPossible = int (length (questions (quizData r))) * 10,
       isSealed = False,
       badge_position = pos,
       rewardPercentage = (if pos = 1 then 50 else if pos = 2 then 30 else if pos = 3 then 20 else 0) \<rparr>"

text \<open>
  The loop of \<^verbatim>\<open>distributeRewardsAndBadges\<close> over the ranked players paired with their
  indices: it returns the new \<^verbatim>\<open>userBadges\<close>, the badges of \<^verbatim>\<open>results.badges\<close> and the
  collaborator calls.
\<close>

fun mintBadges ::
  "quizRoom \<Rightarrow> (player \<times> nat) list \<Rightarrow> (string \<times> userBadge list) list \<Rightarrow>
   (string \<times> userBadge list) list \<times> userBadge list \<times> effect list" where
  "mintBadges r [] ub = (ub, [], [])"
| "mintBadges r ((p, i) # rest) ub =
     (let b = badgeFor r (i + 1) p;
          bs = (case map_of ub (address p) of None \<Rightarrow> [] | Some l \<Rightarrow> l) @ [b];
          ub1 = AList.update (address p) bs ub;
          (ub2, badges, effs) = mintBadges r rest ub1
      in (ub2, b # badges, SaveUserBadges (address p) bs # MintBadge b (address p) # effs))"

definition distributeRewardsAndBadges ::
  "bool \<Rightarrow> player list \<Rightarrow> (string \<times> userBadge list) list \<Rightarrow> quizRoom \<Rightarrow>
   quizRoom \<times> (string \<times> userBadge list) list \<times> userBadge list \<times> effect list" where
  "distributeRewardsAndBadges ledgerOk lb ub r =
     (let (r1, e1) = (if 0 < suiAmount (rewardInfo (quizData r))
                      then distributeSUIRewards ledgerOk lb r else (r, []));
          (ub1, badges, e2) = mintBadges r1 (zip lb [0 ..< length lb]) ub
      in (r1, ub1, badges, e1 @ e2))"

definition finishQuiz ::
  "bool \<Rightarrow> int \<Rightarrow> (string \<times> userBadge list) list \<Rightarrow> quizRoom \<Rightarrow>
   quizRoom \<times> (string \<times> userBadge list) list \<times> effect list" where
  "finishQuiz ledgerOk now ub r =
     (let r1 = clearTimer (calculateLeaderboard (r\<lparr> gameState := Finished, finishTime := Some now \<rparr>));
          lb = rankedPlayers r1;
          finishData = QuizFinished lb (length (questions (quizData r1))) (int (length (players r1)) - 1);
          (r2, ub1, badges, effs) = distributeRewardsAndBadges ledgerOk lb ub r1
      in (r2, ub1, finishData # effs @ [RewardsDistributed True badges]))"

text \<open>The boolean is the method's return value: \<^verbatim>\<open>true\<close> when the quiz was finished.\<close>

definition nextQuestion ::
  "bool \<Rightarrow> int \<Rightarrow> (string \<times> userBadge list) list \<Rightarrow> quizRoom \<Rightarrow>
   (quizRoom \<times> (string \<times> userBadge list) list \<times> effect list) \<times> bool" where
  "nextQuestion ledgerOk now ub r =
     (let r1 = r\<lparr> currentQuestion := currentQuestion r + 1,
                   timeRemaining := orDefault (timePerQuestion (quizData r)) 30 \<rparr>
      in if length (questions (quizData r1)) \<le> currentQuestion r1
         then (finishQuiz ledgerOk now ub r1, True)
         else ((r1, ub, []), False))"

definition handleTimeUp ::
  "bool \<Rightarrow> int \<Rightarrow> (string \<times> userBadge list) list \<Rightarrow> quizRoom \<Rightarrow>
   quizRoom \<times> (string \<times> userBadge list) list \<times> effect list" where
  "handleTimeUp ledgerOk now ub r =
     (if int (currentQuestion r) < int (length (questions (quizData r))) - 1
      then (let (r1, ub1, e1) = fst (nextQuestion ledgerOk now ub r)
            in (startTimerSync r1, ub1,
                e1 @ [NextQuestion (currentQuestion r1) (timeRemaining r1)]))
      else finishQuiz ledgerOk now ub r)"

text \<open>One firing of the interval set by \<^verbatim>\<open>startTimerSync\<close>; it fires only while armed.\<close>

definition timerTick ::
  "bool \<Rightarrow> int \<Rightarrow> (string \<times> userBadge list) list \<Rightarrow> quizRoom \<Rightarrow>
   quizRoom \<times> (string \<times> userBadge list) list \<times> effect list" where
  "timerTick ledgerOk now ub r =
     (if timerInterval r \<and> gameState r = Playing \<and> 0 < timeRemaining r
      then (let r1 = r\<lparr> timeRemaining := timeRemaining r - 1 \<rparr>;
                e = TimerUpdate (timeRemaining r1) (currentQuestion r1)
            in if timeRemaining r1 = 0
               then (let (r2, ub2, e2) = handleTimeUp ledgerOk now ub r1 in (r2, ub2, e # e2))
               else (r1, ub, [e]))
      else (r, ub, []))"

section \<open>The event-channel handlers\<close>

text \<open>
  Each handler takes the connection's \<^verbatim>\<open>socket.id\<close>, the message and the server state,
  and returns the new state with what it emitted. A handler that returns early without
  emitting gives the empty list. The clock (\<open>now\<close>) and the ledger's answer
  (\<open>ledgerOk\<close>) are arguments.

  \<^verbatim>\<open>Array.from(quizRooms.values()).find(r => r.roomCode === roomCode)\<close> is
  \<open>findRoom\<close>: it gives the room with the key it is stored under, so that the handler's
  mutation of the room object is written back in place.
\<close>

definition findRoom :: "string \<Rightarrow> server \<Rightarrow> (string \<times> quizRoom) option" where
  "findRoom code s = find (\<lambda>(k, r). roomCode r = code) (quizRooms s)"

definition putRoom :: "string \<Rightarrow> quizRoom \<Rightarrow> server \<Rightarrow> server" where
  "putRoom k r s = s\<lparr> quizRooms := AList.update k r (quizRooms s) \<rparr>"

definition on_join_room ::
  "int \<Rightarrow> string \<Rightarrow> string \<Rightarrow> string \<Rightarrow> string \<Rightarrow> server \<Rightarrow> server \<times> effect list" where
  "on_join_room now socketId code nick addr s =
     (case findRoom code s of
        None \<Rightarrow> (s, [ErrorMessage ''Room not found''])
      | Some (k, r) \<Rightarrow>
          if gameState r \<noteq> Waiting then (s, [ErrorMessage ''Game has already started''])
          else if orDefault (maxPlayers (quizData r)) 10 \<le> length (players r)
          then (s, [ErrorMessage ''Room is full''])
          else
            (let r1 = addPlayer now socketId nick addr r;
                 s1 = (putRoom k r1 s)\<lparr> socketPlayers :=
                         AList.update socketId
                           \<lparr> info_roomId = code, info_nickname = nick, info_address = addr \<rparr>
                           (socketPlayers s) \<rparr>;
                 lb = broadcastLeaderboard r1
             in (s1, [PlayerJoined socketId nick addr (length (players r1)),
                      LeaderboardUpdate lb (length (players r1)),
                      RoomState (gameState r1) (length (players r1)) lb,
                      RoomState (gameState r1) (length (players r1)) lb])))"

text \<open>
  \<^verbatim>\<open>socket.on('start-quiz')\<close>. The emitted \<^verbatim>\<open>quiz-started\<close> carries the current question
  index and the remaining time.
\<close>

definition on_start_quiz :: "int \<Rightarrow> string \<Rightarrow> server \<Rightarrow> server \<times> effect list" where
  "on_start_quiz now socketId s =
     (case map_of (socketPlayers s) socketId of
        None \<Rightarrow> (s, [])
      | Some pl \<Rightarrow>
          (case map_of (quizRooms s) (info_roomId pl) of
             None \<Rightarrow> (s, [ErrorMessage ''Only host can start the quiz''])
           | Some r \<Rightarrow>
               if hostAddress r \<noteq> info_address pl
               then (s, [ErrorMessage ''Only host can start the quiz''])
               else (let r1 = startQuiz now r
                     in (putRoom (info_roomId pl) r1 s,
                         [QuizStarted (currentQuestion r1) (timeRemaining r1)]))))"

text \<open>
  \<^verbatim>\<open>socket.on('submit-answer')\<close>. After \<^verbatim>\<open>room.submitAnswer\<close> has returned
  \<^verbatim>\<open>true\<close> the handler reads \<^verbatim>\<open>questions[questionIndex].correctAnswer\<close>, which throws
  when there is no such question; the \<^verbatim>\<open>catch\<close> then emits the error, with the answer
  already recorded.
\<close>

definition on_submit_answer :: "string \<Rightarrow> int \<Rightarrow> int \<Rightarrow> server \<Rightarrow> server \<times> effect list" where
  "on_submit_answer socketId questionIndex answerIndex s =
     (case map_of (socketPlayers s) socketId of
        None \<Rightarrow> (s, [])
      | Some pl \<Rightarrow>
          (case map_of (quizRooms s) (info_roomId pl) of
             None \<Rightarrow> (s, [])
           | Some r \<Rightarrow>
               if gameState r \<noteq> Playing then (s, [])
               else
                 (case submitAnswer socketId questionIndex answerIndex r of
                    None \<Rightarrow> (s, [])
                  | Some r1 \<Rightarrow>
                      (case questionAt (questions (quizData r1)) questionIndex of
                         None \<Rightarrow> (putRoom (info_roomId pl) r1 s,
                                  [ErrorMessage ''Failed to submit answer''])
                       | Some q \<Rightarrow>
                           (let isCorrect = (answerIndex = correctAnswer q);
                                earned = (if isCorrect then pointsEarned q else 0)
                            in (putRoom (info_roomId pl) r1 s,
                                [AnswerSubmitted questionIndex answerIndex isCorrect earned,
                                 LeaderboardUpdate (broadcastLeaderboard r1)
                                   (length (players r1))]))))))"

definition on_next_question ::
  "bool \<Rightarrow> int \<Rightarrow> string \<Rightarrow> server \<Rightarrow> server \<times> effect list" where
  "on_next_question ledgerOk now socketId s =
     (case map_of (socketPlayers s) socketId of
        None \<Rightarrow> (s, [])
      | Some pl \<Rightarrow>
          (case map_of (quizRooms s) (info_roomId pl) of
             None \<Rightarrow> (s, [ErrorMessage ''Only host can control the quiz''])
           | Some r \<Rightarrow>
               if hostAddress r \<noteq> info_address pl
               then (s, [ErrorMessage ''Only host can control the quiz''])
               else
                 (let ((r1, ub1, effs), isFinished) = nextQuestion ledgerOk now (userBadges s) r;
                      s1 = s\<lparr> userBadges := ub1 \<rparr>
                  in if isFinished \<or> gameState r1 = Finished
                     then (putRoom (info_roomId pl) r1 s1, effs)
                     else (putRoom (info_roomId pl) (startTimerSync r1) s1,
                           effs @ [NextQuestion (currentQuestion r1) (timeRemaining r1)]))))"

definition on_disconnect :: "string \<Rightarrow> server \<Rightarrow> server \<times> effect list" where
  "on_disconnect socketId s =
     (case map_of (socketPlayers s) socketId of
        None \<Rightarrow> (s, [])
      | Some pl \<Rightarrow>
          (let (s1, effs) =
                 (case map_of (quizRooms s) (info_roomId pl) of
                    None \<Rightarrow> (s, [])
                  | Some r \<Rightarrow>
                      (let r1 = removePlayer socketId r
                       in if hostAddress r1 = info_address pl
                          then (let r2 = resetQuiz r1
                                in (putRoom (info_roomId pl) r2 s, [HostDisconnected (gameState r2)]))
                          else (putRoom (info_roomId pl) r1 s,
                                [PlayerLeft socketId (length (players r1))])))
           in (s1\<lparr> socketPlayers := AList.delete socketId (socketPlayers s1) \<rparr>, effs)))"

text \<open>The interval of the room stored under \<open>k\<close> fires.\<close>

definition on_timer :: "bool \<Rightarrow> int \<Rightarrow> string \<Rightarrow> server \<Rightarrow> server \<times> effect list" where
  "on_timer ledgerOk now k s =
     (case map_of (quizRooms s) k of
        None \<Rightarrow> (s, [])
      | Some r \<Rightarrow>
          (let (r1, ub1, effs) = timerTick ledgerOk now (userBadges s) r
           in (putRoom k r1 (s\<lparr> userBadges := ub1 \<rparr>), effs)))"

section \<open>The REST endpoints\<close>

datatype response = Success | Failure nat string

text \<open>
  The body of \<^verbatim>\<open>POST /api/rooms\<close>. The room keeps it as \<^verbatim>\<open>quizData\<close> with the reward
  fields gathered under \<^verbatim>\<open>rewardInfo\<close>. The room code comes from \<^verbatim>\<open>generateRoomCode\<close>
  (random) and the identifier from \<^verbatim>\<open>uuidv4\<close>: both are arguments. Whether or not the
  storage collaborator saved the room, the room is put in \<^verbatim>\<open>quizRooms\<close>.
\<close>

record quizRequest =
  req_questions :: "question list"
  req_timePerQuestion :: nat
  req_maxPlayers :: nat
  req_suiRewardAmount :: int
  req_rewardDistribution :: distribution
  req_manualPercentages :: "int list option"

definition post_rooms ::
  "string \<Rightarrow> string \<Rightarrow> int \<Rightarrow> quizRequest \<Rightarrow> string \<Rightarrow> server \<Rightarrow> server \<times> response" where
  "post_rooms code uuid now req host s =
     (let room = newQuizRoom uuid now code
                   \<lparr> questions = req_questions req,
                     timePerQuestion = req_timePerQuestion req,
                     maxPlayers = req_maxPlayers req,
                     rewardInfo = \<lparr> suiAmount = req_suiRewardAmount req,
                                    distribution = req_rewardDistribution req,
                                    manualPercentages = req_manualPercentages req \<rparr> \<rparr>
                   host
      in (putRoom code room s, Success))"

definition post_start :: "int \<Rightarrow> string \<Rightarrow> string \<Rightarrow> server \<Rightarrow> server \<times> response \<times> effect list" where
  "post_start now code host s =
     (case findRoom code s of
        None \<Rightarrow> (s, Failure 404 ''Room not found'', [])
      | Some (k, r) \<Rightarrow>
          if hostAddress r \<noteq> host
          then (s, Failure 403 ''Only the host can start the quiz'', [])
          else if questions (quizData r) = []
          then (s, Failure 400 ''Quiz has no questions'', [])
          else (let r1 = startQuiz now r
                in (putRoom k r1 s, Success,
                    [QuizStarted 0 (orDefault (timePerQuestion (quizData r1)) 30)])))"

definition post_stop :: "string \<Rightarrow> string \<Rightarrow> server \<Rightarrow> server \<times> response \<times> effect list" where
  "post_stop code host s =
     (case findRoom code s of
        None \<Rightarrow> (s, Failure 404 ''Room not found'', [])
      | Some (k, r) \<Rightarrow>
          if hostAddress r \<noteq> host
          then (s, Failure 403 ''Only the host can stop the quiz'', [])
          else (let r1 = clearTimer (r\<lparr> gameState := Waiting, currentQuestion := 0,
                                         timeRemaining := 0 \<rparr>)
                in (putRoom k r1 s, Success, [QuizStopped (gameState r1)])))"

section \<open>The quiz-creation form\<close>

text \<open>
  \<^verbatim>\<open>createQuiz\<close> of the form component: it shows an alert and returns, opens the payment
  dialog, or goes on to \<^verbatim>\<open>proceedWithQuizCreation\<close>, which posts the request. A
  percentage field holds \<^verbatim>\<open>parseInt(value) || 0\<close>, an integer.
\<close>

datatype rewardType = Certificate | Sui | Both

record quizForm =
  form_title :: string
  form_description :: string
  form_questions :: "question list"
  form_timePerQuestion :: nat
  form_rewardType :: rewardType
  form_suiRewardAmount :: int
  form_rewardDistribution :: distribution
  form_manualPercentages :: "int list"

text \<open>
  The four alerts of \<^verbatim>\<open>createQuiz\<close>; the one on the percentages reports their total.
\<close>

datatype formOutcome =
    AlertRequiredFields
  | AlertRewardAmount
  | AlertPercentageTotal int
  | AlertNegativePercentage
  | ShowPaymentModal
  | ProceedWithQuizCreation

definition createQuiz :: "quizForm \<Rightarrow> formOutcome" where
  "createQuiz f =
     (if form_title f = [] \<or> form_description f = [] \<or> form_questions f = []
      then AlertRequiredFields
      else if (form_rewardType f = Sui \<or> form_rewardType f = Both) \<and> form_suiRewardAmount f \<le> 0
      then AlertRewardAmount
      else if form_rewardDistribution f = Manual \<and> sum_list (form_manualPercentages f) \<noteq> 100
      then AlertPercentageTotal (sum_list (form_manualPercentages f))
      else if form_rewardDistribution f = Manual \<and> list_ex (\<lambda>p. p < 0) (form_manualPercentages f)
      then AlertNegativePercentage
      else if (form_rewardType f = Sui \<or> form_rewardType f = Both) \<and> 0 < form_suiRewardAmount f
      then ShowPaymentModal
      else ProceedWithQuizCreation)"

text \<open>
  \<^verbatim>\<open>proceedWithQuizCreation\<close> builds the body of \<^verbatim>\<open>POST /api/rooms\<close> from the form:
  the percentages of the form under the manual rule, \<^verbatim>\<open>[50, 30, 20]\<close> otherwise, and a
  reward amount of 0 for a certificate-only quiz.
\<close>

definition requestOfForm :: "quizForm \<Rightarrow> quizRequest" where
  "requestOfForm f =
     \<lparr> req_questions = form_questions f,
       req_timePerQuestion = form_timePerQuestion f,
       req_maxPlayers = 10,
       req_suiRewardAmount =
         (if form_rewardType f = Sui \<or> form_rewardType f = Both then form_suiRewardAmount f else 0),
       req_rewardDistribution = form_rewardDistribution f,
       req_manualPercentages =
         Some (if form_rewardDistribution f = Manual then form_manualPercentages f
               else [50, 30, 20]) \<rparr>"

section \<open>A sample session\<close>

text \<open>
  A two-question quiz (5 and 15 points) with a reward pool of 3 SUI, its room, and the states the
  room's server goes through: the host and two players join, the host starts the quiz.
\<close>

definition sampleQuiz :: quiz_data where
  "sampleQuiz =
     \<lparr> questions = [\<lparr> correctAnswer = 1, points = 5 \<rparr>, \<lparr> correctAnswer = 2, points = 15 \<rparr>],
       timePerQuestion = 30, maxPlayers = 10,
       rewardInfo = \<lparr> suiAmount = 3, distribution = Top3, manualPercentages = None \<rparr> \<rparr>"

definition sampleEmpty :: server where
  "sampleEmpty =
     \<lparr> quizRooms = [(''ABC123'', newQuizRoom ''room-1'' 1000 ''ABC123'' sampleQuiz ''0xhost'')],
       socketPlayers = [], userBadges = [] \<rparr>"

definition sampleLobby :: server where
  "sampleLobby =
     fst (on_join_room 1003 ''sock-b'' ''ABC123'' ''bob'' ''0xbob''
       (fst (on_join_room 1002 ''sock-a'' ''ABC123'' ''alice'' ''0xalice''
         (fst (on_join_room 1001 ''sock-h'' ''ABC123'' ''host'' ''0xhost'' sampleEmpty)))))"

definition samplePlaying :: server where
  "samplePlaying = fst (post_start 2000 ''ABC123'' ''0xhost'' sampleLobby)"

text \<open>What a server stores about one player of one room.\<close>

definition roomOf :: "string \<Rightarrow> server \<Rightarrow> quizRoom option" where
  "roomOf k s = map_of (quizRooms s) k"

definition playerOf :: "string \<Rightarrow> string \<Rightarrow> server \<Rightarrow> player option" where
  "playerOf k socketId s =
     (case roomOf k s of None \<Rightarrow> None | Some r \<Rightarrow> map_of (players r) socketId)"

definition sampleAnswered :: server where
  "sampleAnswered = fst (on_submit_answer ''sock-a'' 0 1 samplePlaying)"

definition sampleSecondQuestion :: server where
  "sampleSecondQuestion = fst (on_next_question True 3000 ''sock-h'' sampleAnswered)"

definition sampleFinished :: server where
  "sampleFinished = fst (on_next_question True 3001 ''sock-h'' sampleSecondQuestion)"

text \<open>The room of \<open>sampleAnswered\<close>: alice has answered the first question correctly.\<close>

definition sampleRoomAnswered :: quizRoom where
  "sampleRoomAnswered =
     \<lparr> roomId = ''room-1'', roomCode = ''ABC123'', quizData = sampleQuiz,
       hostAddress = ''0xhost'',
       players =
         [(''sock-h'', \<lparr> pid = ''sock-h'', nickname = ''host'', address = ''0xhost'',
                         score = 0, answers = [], joinedAt = 1001, isReady = False \<rparr>),
          (''sock-a'', \<lparr> pid = ''sock-a'', nickname = ''alice'', address = ''0xalice'',
                         score = 5, answers = [(0, 1)], joinedAt = 1002, isReady = False \<rparr>),
          (''sock-b'', \<lparr> pid = ''sock-b'', nickname = ''bob'', address = ''0xbob'',
                         score = 0, answers = [], joinedAt = 1003, isReady = False \<rparr>)],
       gameState = Playing, currentQuestion = 0, timeRemaining = 30, leaderboard = [],
       createdAt = 1000, startTime = Some 2000, finishTime = None,
       rewardsDistributed = False, timerInterval = True \<rparr>"

text \<open>The interval of the room stored under \<open>k\<close> fires \<open>n\<close> times.\<close>

fun runTimer :: "nat \<Rightarrow> string \<Rightarrow> server \<Rightarrow> server" where
  "runTimer 0 k s = s"
| "runTimer (Suc n) k s = runTimer n k (fst (on_timer True 3500 k s))"

text \<open>The second, last question of the sample quiz runs out of time: the quiz finishes.\<close>

definition sampleTimedOut :: server where
  "sampleTimedOut = runTimer 30 ''ABC123'' sampleSecondQuestion"

section \<open>Vocabulary of the properties\<close>

text \<open>The leaderboards carried by an emitted message.\<close>

definition boardsOf :: "effect \<Rightarrow> boardRow list list" where
  "boardsOf e =
     (case e of LeaderboardUpdate lb _ \<Rightarrow> [lb] | RoomState _ _ lb \<Rightarrow> [lb] | _ \<Rightarrow> [])"

definition finalBoardsOf :: "effect \<Rightarrow> player list list" where
  "finalBoardsOf e = (case e of QuizFinished lb _ _ \<Rightarrow> [lb] | _ \<Rightarrow> [])"

text \<open>The badges built by one dispatch pass, as its closing message reports them.\<close>

definition badgesOf :: "effect \<Rightarrow> userBadge list" where
  "badgesOf e = (case e of RewardsDistributed _ bs \<Rightarrow> bs | _ \<Rightarrow> [])"

definition isLedgerCall :: "effect \<Rightarrow> bool" where
  "isLedgerCall e =
     (case e of LedgerDistribute _ _ \<Rightarrow> True | MintBadge _ _ \<Rightarrow> True | _ \<Rightarrow> False)"

definition descendingWithoutHost :: "string \<Rightarrow> string list \<Rightarrow> int list \<Rightarrow> bool" where
  "descendingWithoutHost host addrs scores \<longleftrightarrow>
     host \<notin> set addrs \<and> sorted_wrt (\<lambda>a b. b \<le> a) scores"

definition numberedFromOne :: "nat list \<Rightarrow> bool" where
  "numberedFromOne positions \<longleftrightarrow> positions = [1 ..< Suc (length positions)]"

definition wellRankedRows :: "string \<Rightarrow> boardRow list \<Rightarrow> bool" where
  "wellRankedRows host lb \<longleftrightarrow>
     descendingWithoutHost host (map row_address lb) (map row_score lb) \<and>
     numberedFromOne (map row_position lb)"

text \<open>
  The score of a player who answers every question of the quiz correctly, once each:
  the sum of what \<^verbatim>\<open>submitAnswer\<close> adds for each question.
\<close>

definition maxScore :: "question list \<Rightarrow> int" where
  "maxScore qs = sum_list (map pointsEarned qs)"

definition isAlert :: "formOutcome \<Rightarrow> bool" where
  "isAlert out =
     (case out of ShowPaymentModal \<Rightarrow> False | ProceedWithQuizCreation \<Rightarrow> False | _ \<Rightarrow> True)"

text \<open>The badges handed to the ledger's \<^verbatim>\<open>mintBadgeOnBlockchain\<close>.\<close>

definition mintedOf :: "effect \<Rightarrow> userBadge list" where
  "mintedOf e = (case e of MintBadge b _ \<Rightarrow> [b] | _ \<Rightarrow> [])"

text \<open>
  A player answers the questions \<open>qs\<close>, numbered from \<open>i\<close>, correctly and once each,
  through \<^verbatim>\<open>submitAnswer\<close>.
\<close>

fun answerCorrectly :: "string \<Rightarrow> nat \<Rightarrow> question list \<Rightarrow> quizRoom \<Rightarrow> quizRoom option" where
  "answerCorrectly playerId i [] r = Some r"
| "answerCorrectly playerId i (q # qs) r =
     (case submitAnswer playerId (int i) (correctAnswer q) r of
        None \<Rightarrow> None
      | Some r1 \<Rightarrow> answerCorrectly playerId (Suc i) qs r1)"

text \<open>A room whose only question is configured with 0 points; bob is one of its players.\<close>

definition sampleZeroPoints :: quizRoom where
  "sampleZeroPoints =
     sampleRoomAnswered
       \<lparr> quizData := sampleQuiz \<lparr> questions := [\<lparr> correctAnswer = 2, points = 0 \<rparr>] \<rparr> \<rparr>"

text \<open>A filled-in form and a request with the manual rule and percentages 50 and 30.\<close>

definition sampleForm :: quizForm where
  "sampleForm =
     \<lparr> form_title = ''Capitals'', form_description = ''A quiz'',
       form_questions = questions sampleQuiz, form_timePerQuestion = 30,
       form_rewardType = Certificate, form_suiRewardAmount = 0,
       form_rewardDistribution = Manual, form_manualPercentages = [50, 30] \<rparr>"

definition sampleRequest :: quizRequest where
  "sampleRequest =
     \<lparr> req_questions = questions sampleQuiz, req_timePerQuestion = 30, req_maxPlayers = 10,
       req_suiRewardAmount = 3, req_rewardDistribution = Manual,
       req_manualPercentages = Some [50, 30] \<rparr>"

text \<open>The score of a player in a room, and in the room stored under a key.\<close>

definition scoreIn :: "string \<Rightarrow> quizRoom option \<Rightarrow> int option" where
  "scoreIn socketId ro =
     (case ro of None \<Rightarrow> None | Some r \<Rightarrow> map_option score (map_of (players r) socketId))"

definition scoreOf :: "string \<Rightarrow> string \<Rightarrow> server \<Rightarrow> int option" where
  "scoreOf k socketId s = scoreIn socketId (roomOf k s)"

text \<open>How many badges \<^verbatim>\<open>userBadges\<close> holds for an address.\<close>

definition badgeCount :: "string \<Rightarrow> server \<Rightarrow> nat" where
  "badgeCount addr s = (case map_of (userBadges s) addr of None \<Rightarrow> 0 | Some bs \<Rightarrow> length bs)"

definition isError :: "effect \<Rightarrow> bool" where
  "isError e = (case e of ErrorMessage _ \<Rightarrow> True | _ \<Rightarrow> False)"

text \<open>The manual percentages kept by the room stored under a key.\<close>

definition percentagesOf :: "string \<Rightarrow> server \<Rightarrow> int list option" where
  "percentagesOf k s =
     (case roomOf k s of None \<Rightarrow> None | Some r \<Rightarrow> manualPercentages (rewardInfo (quizData r)))"

section \<open>Auxiliary facts\<close>

lemma roomOf_putRoom: "roomOf k' (putRoom k r s) = (if k' = k then Some r else roomOf k' s)"
  by (simp add: roomOf_def putRoom_def update_conv')

lemma socketPlayers_putRoom: "socketPlayers (putRoom k r s) = socketPlayers s"
  by (simp add: putRoom_def)

lemma userBadges_putRoom: "userBadges (putRoom k r s) = userBadges s"
  by (simp add: putRoom_def)

lemma map_fst_zip_same:
  "length xs = length ys \<Longrightarrow> map (\<lambda>x. f (fst x)) (zip xs ys) = map f xs"
  by (induction xs ys rule: list_induct2) simp_all

lemma map_snd_zip_same:
  "length xs = length ys \<Longrightarrow> map (\<lambda>x. g (snd x)) (zip xs ys) = map g ys"
  by (induction xs ys rule: list_induct2) simp_all

lemma map_fst_indexed: "map (\<lambda>x. f (fst x)) (zip xs [0 ..< length xs]) = map f xs"
  by (simp add: map_fst_zip_same)

lemma map_snd_indexed:
  "map (\<lambda>x. Suc (snd x)) (zip xs [0 ..< length xs]) = [1 ..< Suc (length xs)]"
  by (simp add: map_snd_zip_same map_Suc_upt)

lemma rankedPlayers_set:
  "set (rankedPlayers r) = {p \<in> snd ` set (players r). address p \<noteq> hostAddress r}"
  by (auto simp: rankedPlayers_def)

lemma rankedPlayers_sorted: "sorted_wrt (\<lambda>a b. score b \<le> score a) (rankedPlayers r)"
proof -
  have "sorted (map (\<lambda>p. - score p) (rankedPlayers r))"
    unfolding rankedPlayers_def by (rule sorted_sort_key)
  then show ?thesis by (simp add: sorted_map)
qed

lemma rankedPlayers_descending:
  "descendingWithoutHost (hostAddress r) (map address (rankedPlayers r))
     (map score (rankedPlayers r))"
  using rankedPlayers_sorted [of r]
  by (auto simp: descendingWithoutHost_def rankedPlayers_set sorted_wrt_map)

lemma broadcast_positions:
  "map row_position (broadcastLeaderboard r) = [1 ..< Suc (length (rankedPlayers r))]"
  by (simp add: broadcastLeaderboard_def case_prod_beta o_def map_snd_indexed del: upt_Suc)

lemma broadcast_addresses:
  "map row_address (broadcastLeaderboard r) = map address (rankedPlayers r)"
  by (simp add: broadcastLeaderboard_def case_prod_beta o_def map_fst_indexed)

lemma broadcast_scores:
  "map row_score (broadcastLeaderboard r) = map score (rankedPlayers r)"
  by (simp add: broadcastLeaderboard_def case_prod_beta o_def map_fst_indexed)

lemma wellRankedRows_broadcast: "wellRankedRows (hostAddress r) (broadcastLeaderboard r)"
  using rankedPlayers_descending [of r]
  by (simp add: wellRankedRows_def numberedFromOne_def broadcast_positions
      broadcast_addresses broadcast_scores del: upt_Suc)

lemma calculateLeaderboard_positions:
  "map position (leaderboard (calculateLeaderboard r)) = [1 ..< Suc (length (rankedPlayers r))]"
  by (simp add: calculateLeaderboard_def case_prod_beta o_def player.defs ranked.defs
      map_snd_indexed del: upt_Suc)

lemma calculateLeaderboard_addresses:
  "map address (leaderboard (calculateLeaderboard r)) = map address (rankedPlayers r)"
  by (simp add: calculateLeaderboard_def case_prod_beta o_def player.defs ranked.defs
      map_fst_indexed)

lemma calculateLeaderboard_scores:
  "map score (leaderboard (calculateLeaderboard r)) = map score (rankedPlayers r)"
  by (simp add: calculateLeaderboard_def case_prod_beta o_def player.defs ranked.defs
      map_fst_indexed)

lemma calculateLeaderboard_ranked:
  "descendingWithoutHost (hostAddress r) (map address (leaderboard (calculateLeaderboard r)))
     (map score (leaderboard (calculateLeaderboard r))) \<and>
   numberedFromOne (map position (leaderboard (calculateLeaderboard r)))"
  using rankedPlayers_descending [of r]
  by (simp add: numberedFromOne_def calculateLeaderboard_positions
      calculateLeaderboard_addresses calculateLeaderboard_scores del: upt_Suc)

lemma sampleAnswered_room: "quizRooms sampleAnswered = [(''ABC123'', sampleRoomAnswered)]"
  by code_simp

lemma sampleAnswered_sockets:
  "socketPlayers sampleAnswered =
     [(''sock-h'', \<lparr> info_roomId = ''ABC123'', info_nickname = ''host'', info_address = ''0xhost'' \<rparr>),
      (''sock-a'', \<lparr> info_roomId = ''ABC123'', info_nickname = ''alice'', info_address = ''0xalice'' \<rparr>),
      (''sock-b'', \<lparr> info_roomId = ''ABC123'', info_nickname = ''bob'', info_address = ''0xbob'' \<rparr>)]"
  by code_simp

lemma roomOf_socketPlayers: "roomOf k (s\<lparr> socketPlayers := sp \<rparr>) = roomOf k s"
  by (simp add: roomOf_def)

lemma roomOf_userBadges: "roomOf k (s\<lparr> userBadges := ub \<rparr>) = roomOf k s"
  by (simp add: roomOf_def)

section \<open>Stop and host disconnect\<close>

text \<open>
  Claim C6. The host's stop command (\<^verbatim>\<open>POST /api/rooms/:roomCode/stop\<close>) on a room,
  in particular on a playing one, sets \<^verbatim>\<open>gameState\<close> to waiting, \<^verbatim>\<open>currentQuestion\<close>
  and \<^verbatim>\<open>timeRemaining\<close> to 0 and clears the timer; the room's player map, with every
  player's score and recorded answers, is unchanged, and so are the other fields of the
  room and the server's other maps.
\<close>

theorem stop_keeps_players:
  assumes "findRoom code s = Some (k, r)" and "hostAddress r = host"
  shows "case post_stop code host s of
           (s', resp, effs) \<Rightarrow>
             resp = Success \<and> effs = [QuizStopped Waiting] \<and>
             socketPlayers s' = socketPlayers s \<and> userBadges s' = userBadges s \<and>
             (case roomOf k s' of
                None \<Rightarrow> False
              | Some r' \<Rightarrow>
                  gameState r' = Waiting \<and> currentQuestion r' = 0 \<and> timeRemaining r' = 0 \<and>
                  \<not> timerInterval r' \<and> players r' = players r \<and>
                  leaderboard r' = leaderboard r \<and> quizData r' = quizData r \<and>
                  hostAddress r' = hostAddress r \<and>
                  rewardsDistributed r' = rewardsDistributed r)"
  using assms
  by (simp add: post_stop_def Let_def clearTimer_def roomOf_putRoom socketPlayers_putRoom
      userBadges_putRoom)

theorem stop_keeps_players_witness:
  "findRoom ''ABC123'' sampleAnswered = Some (''ABC123'', sampleRoomAnswered) \<and>
   hostAddress sampleRoomAnswered = ''0xhost'' \<and>
   gameState sampleRoomAnswered = Playing \<and>
   map (\<lambda>(k, p). (k, score p, answers p)) (players sampleRoomAnswered) =
     [(''sock-h'', 0, []), (''sock-a'', 5, [(0, 1)]), (''sock-b'', 0, [])] \<and>
   (case post_stop ''ABC123'' ''0xhost'' sampleAnswered of
      (s', resp, effs) \<Rightarrow>
        resp = Success \<and>
        (case roomOf ''ABC123'' s' of
           None \<Rightarrow> False
         | Some r' \<Rightarrow>
             gameState r' = Waiting \<and> currentQuestion r' = 0 \<and> timeRemaining r' = 0 \<and>
             \<not> timerInterval r' \<and>
             map (\<lambda>(k, p). (k, score p, answers p)) (players r') =
               [(''sock-h'', 0, []), (''sock-a'', 5, [(0, 1)]), (''sock-b'', 0, [])]))"
proof -
  have found: "findRoom ''ABC123'' sampleAnswered = Some (''ABC123'', sampleRoomAnswered)"
    by (simp add: findRoom_def sampleAnswered_room sampleRoomAnswered_def)
  have host: "hostAddress sampleRoomAnswered = ''0xhost''"
    by (simp add: sampleRoomAnswered_def)
  have scores: "map (\<lambda>(k, p). (k, score p, answers p)) (players sampleRoomAnswered) =
     [(''sock-h'', 0, []), (''sock-a'', 5, [(0, 1)]), (''sock-b'', 0, [])]"
    by (simp add: sampleRoomAnswered_def)
  have playing: "gameState sampleRoomAnswered = Playing"
    by (simp add: sampleRoomAnswered_def)
  show ?thesis
    using found host playing scores stop_keeps_players [OF found host]
    by (auto split: prod.splits option.splits)
qed

text \<open>
  Claim C7. When the connection of the host disconnects (a connection registered with the
  host's address for the room), the room is reset: \<^verbatim>\<open>gameState\<close> is waiting,
  \<^verbatim>\<open>currentQuestion\<close> and \<^verbatim>\<open>timeRemaining\<close> are 0, the timer is cleared and the player
  map, with all scores and answers, is empty; stop (C6) keeps the player map instead.
\<close>

theorem host_disconnect_resets_room:
  assumes "map_of (socketPlayers s) socketId = Some pl"
    and "roomOf (info_roomId pl) s = Some r"
    and "info_address pl = hostAddress r"
  shows "case on_disconnect socketId s of
           (s', effs) \<Rightarrow>
             effs = [HostDisconnected Waiting] \<and>
             map_of (socketPlayers s') socketId = None \<and>
             (case roomOf (info_roomId pl) s' of
                None \<Rightarrow> False
              | Some r' \<Rightarrow>
                  gameState r' = Waiting \<and> currentQuestion r' = 0 \<and> timeRemaining r' = 0 \<and>
                  \<not> timerInterval r' \<and> players r' = [] \<and> leaderboard r' = [])"
  using assms
  by (simp add: on_disconnect_def Let_def roomOf_def [symmetric] removePlayer_def resetQuiz_def
      clearTimer_def roomOf_putRoom roomOf_socketPlayers socketPlayers_putRoom delete_conv')

theorem host_disconnect_resets_room_witness:
  "map_of (socketPlayers sampleAnswered) ''sock-h'' =
     Some \<lparr> info_roomId = ''ABC123'', info_nickname = ''host'', info_address = ''0xhost'' \<rparr> \<and>
   roomOf ''ABC123'' sampleAnswered = Some sampleRoomAnswered \<and>
   hostAddress sampleRoomAnswered = ''0xhost'' \<and>
   length (players sampleRoomAnswered) = 3 \<and>
   (case on_disconnect ''sock-h'' sampleAnswered of
      (s', effs) \<Rightarrow>
        effs = [HostDisconnected Waiting] \<and>
        (case roomOf ''ABC123'' s' of
           None \<Rightarrow> False
         | Some r' \<Rightarrow>
             gameState r' = Waiting \<and> currentQuestion r' = 0 \<and> timeRemaining r' = 0 \<and>
             \<not> timerInterval r' \<and> players r' = [] \<and> leaderboard r' = []))"
proof -
  let ?pl = "\<lparr> info_roomId = ''ABC123'', info_nickname = ''host'', info_address = ''0xhost'' \<rparr>"
  have sock: "map_of (socketPlayers sampleAnswered) ''sock-h'' = Some ?pl"
    by (simp add: sampleAnswered_sockets)
  have room: "roomOf (info_roomId ?pl) sampleAnswered = Some sampleRoomAnswered"
    by (simp add: roomOf_def sampleAnswered_room)
  have host: "info_address ?pl = hostAddress sampleRoomAnswered"
    by (simp add: sampleRoomAnswered_def)
  have three: "length (players sampleRoomAnswered) = 3"
    by (simp add: sampleRoomAnswered_def)
  show ?thesis
    using sock room host three host_disconnect_resets_room [OF sock room host]
    by (auto split: prod.splits option.splits)
qed

section \<open>Leaderboards\<close>

lemma submitAnswer_hostAddress:
  "submitAnswer socketId qi ai r = Some r1 \<Longrightarrow> hostAddress r1 = hostAddress r"
  by (auto simp: submitAnswer_def Let_def split: option.splits)

lemma rankedPlayers_cong:
  "players r' = players r \<Longrightarrow> hostAddress r' = hostAddress r \<Longrightarrow> rankedPlayers r' = rankedPlayers r"
  by (simp add: rankedPlayers_def)

lemma mintBadges_no_boards:
  "concat (map finalBoardsOf (snd (snd (mintBadges r xs ub)))) = [] \<and>
   concat (map badgesOf (snd (snd (mintBadges r xs ub)))) = []"
  by (induction r xs ub rule: mintBadges.induct)
     (simp_all add: Let_def case_prod_beta finalBoardsOf_def badgesOf_def)

lemma badgeFor_position: "badge_position (badgeFor r pos p) = pos"
  by (simp add: badgeFor_def)

lemma badgeFor_totalPossible:
  "totalPossible (badgeFor r pos p) = 10 * int (length (questions (quizData r)))"
  by (simp add: badgeFor_def)

lemma mintBadges_positions:
  "map badge_position (fst (snd (mintBadges r xs ub))) = map (\<lambda>x. Suc (snd x)) xs"
  by (induction r xs ub rule: mintBadges.induct)
     (simp_all add: Let_def case_prod_beta badgeFor_position)

lemma mintBadges_length: "length (fst (snd (mintBadges r xs ub))) = length xs"
  by (induction r xs ub rule: mintBadges.induct) (simp_all add: Let_def case_prod_beta)

lemma distributeSUIRewards_effects:
  "concat (map finalBoardsOf (snd (distributeSUIRewards ok lb r))) = [] \<and>
   concat (map badgesOf (snd (distributeSUIRewards ok lb r))) = []"
  by (simp add: distributeSUIRewards_def Let_def finalBoardsOf_def badgesOf_def)

lemma distributeSUIRewards_frame:
  "players (fst (distributeSUIRewards ok lb r)) = players r \<and>
   hostAddress (fst (distributeSUIRewards ok lb r)) = hostAddress r \<and>
   leaderboard (fst (distributeSUIRewards ok lb r)) = leaderboard r \<and>
   quizData (fst (distributeSUIRewards ok lb r)) = quizData r \<and>
   gameState (fst (distributeSUIRewards ok lb r)) = gameState r \<and>
   currentQuestion (fst (distributeSUIRewards ok lb r)) = currentQuestion r \<and>
   timeRemaining (fst (distributeSUIRewards ok lb r)) = timeRemaining r"
  by (simp add: distributeSUIRewards_def Let_def)

lemma dispatch_no_boards:
  "concat (map finalBoardsOf (snd (snd (snd (distributeRewardsAndBadges ok lb ub r))))) = [] \<and>
   concat (map badgesOf (snd (snd (snd (distributeRewardsAndBadges ok lb ub r))))) = []"
  using distributeSUIRewards_effects [of ok lb r]
  by (simp add: distributeRewardsAndBadges_def Let_def case_prod_beta mintBadges_no_boards)

lemma dispatch_positions:
  "map badge_position (fst (snd (snd (distributeRewardsAndBadges ok lb ub r)))) =
     [1 ..< Suc (length lb)]"
  by (simp add: distributeRewardsAndBadges_def Let_def case_prod_beta mintBadges_positions
      map_snd_indexed del: upt_Suc)

lemma dispatch_frame:
  "players (fst (distributeRewardsAndBadges ok lb ub r)) = players r \<and>
   hostAddress (fst (distributeRewardsAndBadges ok lb ub r)) = hostAddress r \<and>
   leaderboard (fst (distributeRewardsAndBadges ok lb ub r)) = leaderboard r \<and>
   quizData (fst (distributeRewardsAndBadges ok lb ub r)) = quizData r \<and>
   gameState (fst (distributeRewardsAndBadges ok lb ub r)) = gameState r \<and>
   currentQuestion (fst (distributeRewardsAndBadges ok lb ub r)) = currentQuestion r \<and>
   timeRemaining (fst (distributeRewardsAndBadges ok lb ub r)) = timeRemaining r"
  using distributeSUIRewards_frame [of ok lb r]
  by (simp add: distributeRewardsAndBadges_def Let_def case_prod_beta)

lemma rankedPlayers_finishing:
  "rankedPlayers (clearTimer (calculateLeaderboard (r\<lparr> gameState := g, finishTime := t \<rparr>))) =
     rankedPlayers r"
  by (simp add: rankedPlayers_def clearTimer_def calculateLeaderboard_def)

lemma leaderboard_finishing:
  "leaderboard (clearTimer (calculateLeaderboard (r\<lparr> gameState := g, finishTime := t \<rparr>))) =
     leaderboard (calculateLeaderboard r)"
  by (simp add: rankedPlayers_def clearTimer_def calculateLeaderboard_def)

lemma finishQuiz_finalBoards:
  "concat (map finalBoardsOf (snd (snd (finishQuiz ok now ub r)))) = [rankedPlayers r]"
  by (simp add: finishQuiz_def Let_def case_prod_beta dispatch_no_boards
      rankedPlayers_finishing finalBoardsOf_def)

lemma finishQuiz_badge_positions:
  "map badge_position (concat (map badgesOf (snd (snd (finishQuiz ok now ub r))))) =
     [1 ..< Suc (length (rankedPlayers r))]"
  by (simp add: finishQuiz_def Let_def case_prod_beta dispatch_no_boards dispatch_positions
      rankedPlayers_finishing badgesOf_def del: upt_Suc)

lemma finishQuiz_leaderboard:
  "leaderboard (fst (finishQuiz ok now ub r)) = leaderboard (calculateLeaderboard r)"
  by (simp add: finishQuiz_def Let_def case_prod_beta dispatch_frame leaderboard_finishing)


lemma addPlayer_hostAddress: "hostAddress (addPlayer now socketId nick addr r) = hostAddress r"
  by (simp add: addPlayer_def)

lemma join_boards:
  "findRoom code s = Some (k, r) \<Longrightarrow>
   list_all (wellRankedRows (hostAddress r))
     (concat (map boardsOf (snd (on_join_room now socketId code nick addr s))))"
  using wellRankedRows_broadcast [of "addPlayer now socketId nick addr r"]
  by (simp add: on_join_room_def Let_def boardsOf_def addPlayer_hostAddress)

lemma join_no_boards:
  "findRoom code s = None \<Longrightarrow>
   concat (map boardsOf (snd (on_join_room now socketId code nick addr s))) = []"
  by (simp add: on_join_room_def boardsOf_def)

lemma submit_boards:
  "map_of (socketPlayers s) socketId = Some pl \<Longrightarrow> roomOf (info_roomId pl) s = Some r \<Longrightarrow>
   list_all (wellRankedRows (hostAddress r))
     (concat (map boardsOf (snd (on_submit_answer socketId qi ai s))))"
proof (cases "submitAnswer socketId qi ai r")
  case None
  assume "map_of (socketPlayers s) socketId = Some pl" "roomOf (info_roomId pl) s = Some r"
  with None show ?thesis
    by (simp add: on_submit_answer_def roomOf_def boardsOf_def)
next
  case (Some r1)
  assume "map_of (socketPlayers s) socketId = Some pl" "roomOf (info_roomId pl) s = Some r"
  with Some wellRankedRows_broadcast [of r1] submitAnswer_hostAddress [OF Some] show ?thesis
    by (simp add: on_submit_answer_def roomOf_def boardsOf_def Let_def split: option.splits)
qed

lemma submit_no_boards:
  "map_of (socketPlayers s) socketId = None \<or>
   (map_of (socketPlayers s) socketId = Some pl \<and> roomOf (info_roomId pl) s = None) \<Longrightarrow>
   concat (map boardsOf (snd (on_submit_answer socketId qi ai s))) = []"
  by (auto simp: on_submit_answer_def roomOf_def boardsOf_def)

text \<open>
  What holds of every leaderboard the server computes: it leaves out the players whose
  address is the host's and lists the others by descending score. The leaderboards of
  the messages emitted after a join and after an accepted answer (\<^verbatim>\<open>leaderboard-update\<close>,
  \<^verbatim>\<open>room-state\<close>) and the leaderboard stored in the room by \<^verbatim>\<open>calculateLeaderboard\<close> at
  finish number their entries from 1, and so do the badges of the finish. The list sent
  with \<^verbatim>\<open>quiz-finished\<close> is the ranked list of player objects itself.
\<close>

theorem leaderboards_exclude_host_and_descend:
  "(case findRoom code s of
      None \<Rightarrow> concat (map boardsOf (snd (on_join_room now socketId code nick addr s))) = []
    | Some (k, r) \<Rightarrow>
        list_all (wellRankedRows (hostAddress r))
          (concat (map boardsOf (snd (on_join_room now socketId code nick addr s))))) \<and>
   (case map_of (socketPlayers s) socketId of
      None \<Rightarrow> concat (map boardsOf (snd (on_submit_answer socketId qi ai s))) = []
    | Some pl \<Rightarrow>
        (case roomOf (info_roomId pl) s of
           None \<Rightarrow> concat (map boardsOf (snd (on_submit_answer socketId qi ai s))) = []
         | Some r \<Rightarrow>
             list_all (wellRankedRows (hostAddress r))
               (concat (map boardsOf (snd (on_submit_answer socketId qi ai s)))))) \<and>
   concat (map finalBoardsOf (snd (snd (finishQuiz ledgerOk now ub room)))) = [rankedPlayers room] \<and>
   descendingWithoutHost (hostAddress room) (map address (rankedPlayers room))
     (map score (rankedPlayers room)) \<and>
   numberedFromOne
     (map badge_position (concat (map badgesOf (snd (snd (finishQuiz ledgerOk now ub room)))))) \<and>
   descendingWithoutHost (hostAddress room)
     (map address (leaderboard (fst (finishQuiz ledgerOk now ub room))))
     (map score (leaderboard (fst (finishQuiz ledgerOk now ub room)))) \<and>
   numberedFromOne (map position (leaderboard (fst (finishQuiz ledgerOk now ub room)))) \<and>
   set (rankedPlayers room) = {p \<in> snd ` set (players room). address p \<noteq> hostAddress room} \<and>
   map row_address (broadcastLeaderboard room) = map address (rankedPlayers room) \<and>
   map row_score (broadcastLeaderboard room) = map score (rankedPlayers room)"
proof -
  have join: "case findRoom code s of
      None \<Rightarrow> concat (map boardsOf (snd (on_join_room now socketId code nick addr s))) = []
    | Some (k, r) \<Rightarrow>
        list_all (wellRankedRows (hostAddress r))
          (concat (map boardsOf (snd (on_join_room now socketId code nick addr s))))"
    by (simp add: join_boards join_no_boards split: option.splits)
  have submit: "case map_of (socketPlayers s) socketId of
      None \<Rightarrow> concat (map boardsOf (snd (on_submit_answer socketId qi ai s))) = []
    | Some pl \<Rightarrow>
        (case roomOf (info_roomId pl) s of
           None \<Rightarrow> concat (map boardsOf (snd (on_submit_answer socketId qi ai s))) = []
         | Some r \<Rightarrow>
             list_all (wellRankedRows (hostAddress r))
               (concat (map boardsOf (snd (on_submit_answer socketId qi ai s)))))"
    by (simp add: submit_boards submit_no_boards split: option.splits)
  have badges: "numberedFromOne
     (map badge_position (concat (map badgesOf (snd (snd (finishQuiz ledgerOk now ub room))))))"
    unfolding numberedFromOne_def
    by (simp add: finishQuiz_badge_positions del: upt_Suc map_concat)
  have board: "descendingWithoutHost (hostAddress room)
     (map address (leaderboard (fst (finishQuiz ledgerOk now ub room))))
     (map score (leaderboard (fst (finishQuiz ledgerOk now ub room)))) \<and>
   numberedFromOne (map position (leaderboard (fst (finishQuiz ledgerOk now ub room))))"
    using calculateLeaderboard_ranked [of room] by (simp add: finishQuiz_leaderboard)
  show ?thesis
    using join submit badges board rankedPlayers_descending [of room]
    by (simp add: finishQuiz_finalBoards rankedPlayers_set broadcast_addresses broadcast_scores)
qed

theorem leaderboards_exclude_host_and_descend_witness:
  "concat (map boardsOf (snd (on_submit_answer ''sock-b'' 0 1 samplePlaying))) =
     [[\<lparr> row_address = ''0xbob'', row_nickname = ''bob'', row_score = 5, row_position = 1 \<rparr>,
       \<lparr> row_address = ''0xalice'', row_nickname = ''alice'', row_score = 0, row_position = 2 \<rparr>]] \<and>
   list_all (wellRankedRows ''0xhost'')
     (concat (map boardsOf (snd (on_submit_answer ''sock-b'' 0 1 samplePlaying)))) \<and>
   length (concat (map boardsOf
     (snd (on_join_room 1004 ''sock-c'' ''ABC123'' ''carol'' ''0xcarol'' sampleLobby)))) = 3 \<and>
   list_all (wellRankedRows ''0xhost'')
     (concat (map boardsOf
       (snd (on_join_room 1004 ''sock-c'' ''ABC123'' ''carol'' ''0xcarol'' sampleLobby)))) \<and>
   map (\<lambda>p. (address p, score p))
     (concat (concat (map finalBoardsOf (snd (snd (finishQuiz True 3000 [] sampleRoomAnswered)))))) =
     [(''0xalice'', 5), (''0xbob'', 0)] \<and>
   map (\<lambda>e. (address e, score e, position e))
     (leaderboard (fst (finishQuiz True 3000 [] sampleRoomAnswered))) =
     [(''0xalice'', 5, 1), (''0xbob'', 0, 2)] \<and>
   numberedFromOne (map position (leaderboard (fst (finishQuiz True 3000 [] sampleRoomAnswered))))"
proof -
  note inst = leaderboards_exclude_host_and_descend
    [where s = samplePlaying and socketId = "''sock-b''" and qi = 0 and ai = 1
       and ledgerOk = True and now = 3000 and ub = "[]" and room = sampleRoomAnswered]
  note inst2 = leaderboards_exclude_host_and_descend
    [where s = sampleLobby and socketId = "''sock-c''" and code = "''ABC123''" and now = 1004
       and nick = "''carol''" and addr = "''0xcarol''"]
  have sock: "map_of (socketPlayers samplePlaying) ''sock-b'' =
      Some \<lparr> info_roomId = ''ABC123'', info_nickname = ''bob'', info_address = ''0xbob'' \<rparr>"
    by code_simp
  have room: "case roomOf ''ABC123'' samplePlaying of
      None \<Rightarrow> False | Some r \<Rightarrow> hostAddress r = ''0xhost''"
    by code_simp
  have lobby: "case findRoom ''ABC123'' sampleLobby of
      None \<Rightarrow> False | Some (k, r) \<Rightarrow> hostAddress r = ''0xhost''"
    by code_simp
  have boards: "concat (map boardsOf (snd (on_submit_answer ''sock-b'' 0 1 samplePlaying))) =
     [[\<lparr> row_address = ''0xbob'', row_nickname = ''bob'', row_score = 5, row_position = 1 \<rparr>,
       \<lparr> row_address = ''0xalice'', row_nickname = ''alice'', row_score = 0, row_position = 2 \<rparr>]]"
    by code_simp
  have three: "length (concat (map boardsOf
     (snd (on_join_room 1004 ''sock-c'' ''ABC123'' ''carol'' ''0xcarol'' sampleLobby)))) = 3"
    by code_simp
  have final: "map (\<lambda>p. (address p, score p))
     (concat (concat (map finalBoardsOf (snd (snd (finishQuiz True 3000 [] sampleRoomAnswered)))))) =
     [(''0xalice'', 5), (''0xbob'', 0)]"
    by code_simp
  have stored: "map (\<lambda>e. (address e, score e, position e))
     (leaderboard (fst (finishQuiz True 3000 [] sampleRoomAnswered))) =
     [(''0xalice'', 5, 1), (''0xbob'', 0, 2)]"
    by code_simp
  from inst sock room have a: "list_all (wellRankedRows ''0xhost'')
     (concat (map boardsOf (snd (on_submit_answer ''sock-b'' 0 1 samplePlaying))))"
    by (auto split: option.splits)
  from inst2 lobby have b: "list_all (wellRankedRows ''0xhost'')
     (concat (map boardsOf
       (snd (on_join_room 1004 ''sock-c'' ''ABC123'' ''carol'' ''0xcarol'' sampleLobby))))"
    by (auto split: option.splits)
  from inst have c:
    "numberedFromOne (map position (leaderboard (fst (finishQuiz True 3000 [] sampleRoomAnswered))))"
    by simp
  show ?thesis
    using a b c boards three final stored by simp
qed

section \<open>Answer submission\<close>

lemma questionAt_append: "questionAt (pre @ q # qs) (int (length pre)) = Some q"
  by (simp add: questionAt_def)

lemma submitAnswer_player:
  assumes "map_of (players r) socketId = Some p"
  shows "\<exists>r1. submitAnswer socketId qi ai r = Some r1 \<and>
           quizData r1 = quizData r \<and> gameState r1 = gameState r \<and>
           currentQuestion r1 = currentQuestion r \<and> hostAddress r1 = hostAddress r \<and>
           map_of (players r1) =
             (map_of (players r))(socketId \<mapsto>
               p\<lparr> score := score p +
                       (case questionAt (questions (quizData r)) qi of
                          None \<Rightarrow> 0
                        | Some q \<Rightarrow> if ai = correctAnswer q then pointsEarned q else 0),
                   answers := AList.update qi ai (answers p) \<rparr>)"
  using assms by (simp add: submitAnswer_def Let_def update_conv')

lemma answerCorrectly_score:
  "map_of (players r) socketId = Some p \<Longrightarrow> questions (quizData r) = pre @ qs \<Longrightarrow>
   \<exists>r' p'. answerCorrectly socketId (length pre) qs r = Some r' \<and>
           map_of (players r') socketId = Some p' \<and> score p' = score p + maxScore qs"
proof (induction qs arbitrary: pre r p)
  case Nil
  then show ?case by (simp add: maxScore_def)
next
  case (Cons q qs)
  from submitAnswer_player [OF Cons.prems(1), of "int (length pre)" "correctAnswer q"]
  obtain r1 where r1: "submitAnswer socketId (int (length pre)) (correctAnswer q) r = Some r1"
    and qd: "quizData r1 = quizData r"
    and pl: "map_of (players r1) socketId =
               Some (p\<lparr> score := score p + pointsEarned q,
                        answers := AList.update (int (length pre)) (correctAnswer q) (answers p) \<rparr>)"
    using Cons.prems(2) by (auto simp: questionAt_append)
  have "questions (quizData r1) = (pre @ [q]) @ qs"
    using qd Cons.prems(2) by simp
  from Cons.IH [OF pl this] r1 show ?case
    by (auto simp: maxScore_def)
qed

lemma answerCorrectly_maxScore:
  "case map_of (players r) socketId of
     None \<Rightarrow> True
   | Some p \<Rightarrow>
       (case answerCorrectly socketId 0 (questions (quizData r)) r of
          None \<Rightarrow> False
        | Some r' \<Rightarrow>
            map_option score (map_of (players r') socketId) =
              Some (score p + maxScore (questions (quizData r))))"
proof (cases "map_of (players r) socketId")
  case None
  then show ?thesis by simp
next
  case (Some p)
  from answerCorrectly_score [OF Some, of "[]" "questions (quizData r)"] Some
  show ?thesis by auto
qed

text \<open>
  Claim C1, as the code has it. In a room in the playing state, every submission by a
  player of the room for the room's current question is accepted, also one that repeats
  an earlier submission for the same question: it adds to the player's score the
  question's points (10 when the configured points are 0 or absent) when the answer
  equals the correct index and 0 otherwise, records the answer at that index, and
  leaves the room playing the same question, so that the next submission is treated the
  same way.
\<close>

theorem submit_current_question_scores_each_time:
  assumes sock: "map_of (socketPlayers s) socketId = Some pl"
    and room: "roomOf (info_roomId pl) s = Some r"
    and playing: "gameState r = Playing"
    and member: "map_of (players r) socketId = Some p"
    and current: "questionAt (questions (quizData r)) (int (currentQuestion r)) = Some q"
  shows "case on_submit_answer socketId (int (currentQuestion r)) answerIndex s of
           (s', effs) \<Rightarrow>
             (case effs of
                [AnswerSubmitted qi ai isCorrect earned, LeaderboardUpdate lb n] \<Rightarrow>
                  qi = int (currentQuestion r) \<and> ai = answerIndex \<and>
                  isCorrect = (answerIndex = correctAnswer q) \<and>
                  earned = (if answerIndex = correctAnswer q
                            then (if points q = 0 then 10 else points q) else 0)
              | _ \<Rightarrow> False) \<and>
             (case playerOf (info_roomId pl) socketId s' of
                None \<Rightarrow> False
              | Some p' \<Rightarrow>
                  score p' =
                    score p + (if answerIndex = correctAnswer q
                               then (if points q = 0 then 10 else points q) else 0) \<and>
                  map_of (answers p') (int (currentQuestion r)) = Some answerIndex) \<and>
             map_of (socketPlayers s') socketId = Some pl \<and>
             (case roomOf (info_roomId pl) s' of
                None \<Rightarrow> False
              | Some r' \<Rightarrow>
                  gameState r' = Playing \<and> currentQuestion r' = currentQuestion r \<and>
                  quizData r' = quizData r)"
proof -
  from submitAnswer_player [OF member, of "int (currentQuestion r)" answerIndex]
  obtain r1 where r1: "submitAnswer socketId (int (currentQuestion r)) answerIndex r = Some r1"
    and frame: "quizData r1 = quizData r" "gameState r1 = gameState r"
      "currentQuestion r1 = currentQuestion r"
    and pl: "map_of (players r1) socketId =
               Some (p\<lparr> score := score p + (if answerIndex = correctAnswer q then pointsEarned q else 0),
                        answers := AList.update (int (currentQuestion r)) answerIndex (answers p) \<rparr>)"
    using current by auto
  have run: "on_submit_answer socketId (int (currentQuestion r)) answerIndex s =
      (putRoom (info_roomId pl) r1 s,
       [AnswerSubmitted (int (currentQuestion r)) answerIndex (answerIndex = correctAnswer q)
          (if answerIndex = correctAnswer q then pointsEarned q else 0),
        LeaderboardUpdate (broadcastLeaderboard r1) (length (players r1))])"
    using sock room playing r1 current frame
    by (simp add: on_submit_answer_def roomOf_def Let_def)
  show ?thesis
    using sock playing frame pl
    by (simp add: run playerOf_def roomOf_putRoom socketPlayers_putRoom pointsEarned_def
        orDefault_def update_conv')
qed

theorem submit_current_question_scores_each_time_witness:
  "map_of (socketPlayers sampleAnswered) ''sock-a'' =
     Some \<lparr> info_roomId = ''ABC123'', info_nickname = ''alice'', info_address = ''0xalice'' \<rparr> \<and>
   roomOf ''ABC123'' sampleAnswered = Some sampleRoomAnswered \<and>
   gameState sampleRoomAnswered = Playing \<and>
   map_of (players sampleRoomAnswered) ''sock-a'' =
     Some \<lparr> pid = ''sock-a'', nickname = ''alice'', address = ''0xalice'', score = 5,
            answers = [(0, 1)], joinedAt = 1002, isReady = False \<rparr> \<and>
   questionAt (questions (quizData sampleRoomAnswered)) (int (currentQuestion sampleRoomAnswered)) =
     Some \<lparr> correctAnswer = 1, points = 5 \<rparr> \<and>
   scoreOf ''ABC123'' ''sock-a''
     (fst (on_submit_answer ''sock-a'' (int (currentQuestion sampleRoomAnswered)) 1 sampleAnswered)) =
     Some 10"
proof -
  let ?pl = "\<lparr> info_roomId = ''ABC123'', info_nickname = ''alice'', info_address = ''0xalice'' \<rparr>"
  let ?p = "\<lparr> pid = ''sock-a'', nickname = ''alice'', address = ''0xalice'', score = 5,
            answers = [(0, 1)], joinedAt = 1002, isReady = False \<rparr>"
  let ?q = "\<lparr> correctAnswer = 1, points = 5 \<rparr>"
  have sock: "map_of (socketPlayers sampleAnswered) ''sock-a'' = Some ?pl"
    by (simp add: sampleAnswered_sockets)
  have room: "roomOf (info_roomId ?pl) sampleAnswered = Some sampleRoomAnswered"
    by (simp add: roomOf_def sampleAnswered_room)
  have playing: "gameState sampleRoomAnswered = Playing"
    by (simp add: sampleRoomAnswered_def)
  have member: "map_of (players sampleRoomAnswered) ''sock-a'' = Some ?p"
    by (simp add: sampleRoomAnswered_def)
  have current: "questionAt (questions (quizData sampleRoomAnswered))
      (int (currentQuestion sampleRoomAnswered)) = Some ?q"
    by (simp add: sampleRoomAnswered_def sampleQuiz_def questionAt_def)
  from submit_current_question_scores_each_time [OF sock room playing member current, of 1]
  have "scoreOf ''ABC123'' ''sock-a''
     (fst (on_submit_answer ''sock-a'' (int (currentQuestion sampleRoomAnswered)) 1 sampleAnswered)) =
     Some 10"
    by (auto simp: scoreOf_def scoreIn_def playerOf_def split: prod.splits option.splits)
  with sock room playing member current show ?thesis by simp
qed

text \<open>
  Against C1 as stated: alice's second submission for the first question is scored
  again, and a question configured with 0 points gives bob 10.
\<close>

theorem repeated_submission_scored_again:
  "scoreOf ''ABC123'' ''sock-a'' samplePlaying = Some 0 \<and>
   scoreOf ''ABC123'' ''sock-a'' (fst (on_submit_answer ''sock-a'' 0 1 samplePlaying)) = Some 5 \<and>
   scoreOf ''ABC123'' ''sock-a''
     (fst (on_submit_answer ''sock-a'' 0 1 (fst (on_submit_answer ''sock-a'' 0 1 samplePlaying)))) =
     Some 10 \<and>
   map points (questions (quizData sampleZeroPoints)) = [0] \<and>
   scoreIn ''sock-b'' (Some sampleZeroPoints) = Some 0 \<and>
   scoreIn ''sock-b'' (submitAnswer ''sock-b'' 0 2 sampleZeroPoints) = Some 10"
  by code_simp

section \<open>Validation of the manual percentages\<close>

text \<open>
  Claim C8, as the code has it. The quiz-creation form answers a manual distribution
  whose percentages do not sum to 100 with an alert and sends no request, so that the
  manual percentages of a request built from the form sum to 100; the server's
  \<^verbatim>\<open>POST /api/rooms\<close> does not look at the percentages: it answers success and stores
  a waiting room that keeps the distribution rule and the percentages it was sent.
\<close>

theorem manual_percentages_checked_by_form_only:
  "(form_rewardDistribution f = Manual \<and> sum_list (form_manualPercentages f) \<noteq> 100 \<longrightarrow>
      isAlert (createQuiz f)) \<and>
   (form_rewardDistribution f = Manual \<and> \<not> isAlert (createQuiz f) \<longrightarrow>
      map_option sum_list (req_manualPercentages (requestOfForm f)) = Some 100) \<and>
   snd (post_rooms code uuid now req host s) = Success \<and>
   (case roomOf code (fst (post_rooms code uuid now req host s)) of
      None \<Rightarrow> False
    | Some r \<Rightarrow>
        gameState r = Waiting \<and>
        distribution (rewardInfo (quizData r)) = req_rewardDistribution req \<and>
        manualPercentages (rewardInfo (quizData r)) = req_manualPercentages req)"
  by (simp add: createQuiz_def isAlert_def requestOfForm_def post_rooms_def Let_def
      roomOf_putRoom newQuizRoom_def)

theorem manual_percentages_checked_by_form_only_witness:
  "form_rewardDistribution sampleForm = Manual \<and>
   sum_list (form_manualPercentages sampleForm) = 80 \<and>
   createQuiz sampleForm = AlertPercentageTotal 80 \<and>
   isAlert (createQuiz sampleForm)"
proof -
  have manual: "form_rewardDistribution sampleForm = Manual"
    by (simp add: sampleForm_def)
  have total: "sum_list (form_manualPercentages sampleForm) = 80"
    by (simp add: sampleForm_def)
  have alert: "createQuiz sampleForm = AlertPercentageTotal 80"
    by code_simp
  from manual total manual_percentages_checked_by_form_only [of sampleForm]
  have "isAlert (createQuiz sampleForm)" by simp
  with manual total alert show ?thesis by simp
qed

text \<open>
  Against C8 as stated: the server creates a room for a manual distribution of 50 and 30.
\<close>

theorem server_creates_room_with_percentages_80:
  "req_rewardDistribution sampleRequest = Manual \<and>
   map_option sum_list (req_manualPercentages sampleRequest) = Some 80 \<and>
   snd (post_rooms ''XYZ789'' ''room-2'' 5000 sampleRequest ''0xhost'' sampleEmpty) = Success \<and>
   percentagesOf ''XYZ789''
     (fst (post_rooms ''XYZ789'' ''room-2'' 5000 sampleRequest ''0xhost'' sampleEmpty)) =
     Some [50, 30]"
  by code_simp

section \<open>The recorded maximum of a badge\<close>

lemma mintBadges_totalPossible:
  "list_all (\<lambda>b. totalPossible b = 10 * int (length (questions (quizData r))))
     (fst (snd (mintBadges r xs ub)))"
  by (induction r xs ub rule: mintBadges.induct)
     (simp_all add: Let_def case_prod_beta badgeFor_totalPossible)

lemma mintBadges_scores:
  "map badge_score (fst (snd (mintBadges r xs ub))) = map (\<lambda>x. score (fst x)) xs"
  by (induction r xs ub rule: mintBadges.induct)
     (simp_all add: Let_def case_prod_beta badgeFor_def)

lemma mintBadges_minted:
  "concat (map mintedOf (snd (snd (mintBadges r xs ub)))) = fst (snd (mintBadges r xs ub))"
  by (induction r xs ub rule: mintBadges.induct)
     (simp_all add: Let_def case_prod_beta mintedOf_def)

lemma distributeSUIRewards_minted:
  "concat (map mintedOf (snd (distributeSUIRewards ok lb r))) = []"
  by (simp add: distributeSUIRewards_def Let_def mintedOf_def)

lemma dispatch_badges:
  "fst (snd (snd (distributeRewardsAndBadges ok lb ub r))) =
     fst (snd (mintBadges (fst (if 0 < suiAmount (rewardInfo (quizData r))
                                then distributeSUIRewards ok lb r else (r, [])))
                (zip lb [0 ..< length lb]) ub))"
  by (simp add: distributeRewardsAndBadges_def Let_def case_prod_beta)

lemma dispatch_totalPossible:
  "list_all (\<lambda>b. totalPossible b = 10 * int (length (questions (quizData r))))
     (fst (snd (snd (distributeRewardsAndBadges ok lb ub r))))"
  using mintBadges_totalPossible [of "fst (distributeSUIRewards ok lb r)" "zip lb [0 ..< length lb]" ub]
    mintBadges_totalPossible [of r "zip lb [0 ..< length lb]" ub]
    distributeSUIRewards_frame [of ok lb r]
  by (simp add: dispatch_badges)

lemma dispatch_scores:
  "map badge_score (fst (snd (snd (distributeRewardsAndBadges ok lb ub r)))) = map score lb"
  by (simp add: dispatch_badges mintBadges_scores map_fst_indexed)

lemma dispatch_minted:
  "concat (map mintedOf (snd (snd (snd (distributeRewardsAndBadges ok lb ub r))))) =
     fst (snd (snd (distributeRewardsAndBadges ok lb ub r)))"
  using distributeSUIRewards_minted [of ok lb r]
  by (simp add: distributeRewardsAndBadges_def Let_def case_prod_beta mintBadges_minted)

lemma quizData_finishing:
  "quizData (clearTimer (calculateLeaderboard (r\<lparr> gameState := g, finishTime := t \<rparr>))) = quizData r"
  by (simp add: clearTimer_def calculateLeaderboard_def)

lemma finishQuiz_badges:
  "concat (map badgesOf (snd (snd (finishQuiz ok now ub r)))) =
     fst (snd (snd (distributeRewardsAndBadges ok (rankedPlayers r) ub
       (clearTimer (calculateLeaderboard (r\<lparr> gameState := Finished, finishTime := Some now \<rparr>))))))"
  by (simp add: finishQuiz_def Let_def case_prod_beta dispatch_no_boards
      rankedPlayers_finishing badgesOf_def)

lemma finishQuiz_minted:
  "concat (map mintedOf (snd (snd (finishQuiz ok now ub r)))) =
     concat (map badgesOf (snd (snd (finishQuiz ok now ub r))))"
  unfolding finishQuiz_badges
  by (simp add: finishQuiz_def Let_def case_prod_beta dispatch_minted
      rankedPlayers_finishing mintedOf_def)

lemma maxScore_gap: "10 * int (length qs) = maxScore qs + sum_list (map (\<lambda>q. 10 - pointsEarned q) qs)"
  by (induction qs) (simp_all add: maxScore_def)

text \<open>
  Claim C10, as the code has it. Every badge built at finish, one per ranked player and
  the same object that is handed to the ledger, carries the player's score and a
  \<^verbatim>\<open>totalPossible\<close> of 10 times the number of questions, whatever the questions' points.
  That differs from the score of answering every question correctly once, the sum of
  the questions' points, by the sum of \<open>10 - points\<close> over the questions: the recorded
  maximum is wrong exactly when that sum is not 0, which points other than 10 can
  still give (5 and 15).
\<close>

theorem badge_totalPossible_is_ten_per_question:
  "list_all (\<lambda>b. totalPossible b = 10 * int (length (questions (quizData room))) \<and>
                totalPossible b =
                  maxScore (questions (quizData room)) +
                  sum_list (map (\<lambda>q. 10 - pointsEarned q) (questions (quizData room))))
     (concat (map badgesOf (snd (snd (finishQuiz ledgerOk now ub room))))) \<and>
   map badge_score (concat (map badgesOf (snd (snd (finishQuiz ledgerOk now ub room))))) =
     map score (rankedPlayers room) \<and>
   concat (map mintedOf (snd (snd (finishQuiz ledgerOk now ub room)))) =
     concat (map badgesOf (snd (snd (finishQuiz ledgerOk now ub room)))) \<and>
   (case map_of (players room) socketId of
      None \<Rightarrow> True
    | Some p \<Rightarrow>
        (case answerCorrectly socketId 0 (questions (quizData room)) room of
           None \<Rightarrow> False
         | Some r' \<Rightarrow>
             map_option score (map_of (players r') socketId) =
               Some (score p + maxScore (questions (quizData room)))))"
proof -
  let ?r1 = "clearTimer (calculateLeaderboard (room\<lparr> gameState := Finished, finishTime := Some now \<rparr>))"
  have "list_all (\<lambda>b. totalPossible b = 10 * int (length (questions (quizData room))))
     (concat (map badgesOf (snd (snd (finishQuiz ledgerOk now ub room)))))"
    using dispatch_totalPossible [of ?r1 ledgerOk "rankedPlayers room" ub]
    by (simp only: finishQuiz_badges quizData_finishing)
  then have first: "list_all (\<lambda>b. totalPossible b = 10 * int (length (questions (quizData room))) \<and>
                totalPossible b =
                  maxScore (questions (quizData room)) +
                  sum_list (map (\<lambda>q. 10 - pointsEarned q) (questions (quizData room))))
     (concat (map badgesOf (snd (snd (finishQuiz ledgerOk now ub room)))))"
    using maxScore_gap [of "questions (quizData room)"]
    by (simp add: list_all_iff del: set_concat)
  have second: "map badge_score (concat (map badgesOf (snd (snd (finishQuiz ledgerOk now ub room))))) =
     map score (rankedPlayers room)"
    by (simp only: finishQuiz_badges dispatch_scores)
  show ?thesis
    using first second finishQuiz_minted [of ledgerOk now ub room]
      answerCorrectly_maxScore [where r = room and socketId = socketId]
    by simp
qed

theorem badge_totalPossible_is_ten_per_question_witness:
  "map (\<lambda>b. (badge_score b, totalPossible b))
     (concat (map badgesOf (snd (snd (finishQuiz True 3000 [] sampleRoomAnswered))))) =
     [(5, 20), (0, 20)] \<and>
   list_all (\<lambda>b. totalPossible b = 10 * int (length (questions (quizData sampleRoomAnswered))))
     (concat (map badgesOf (snd (snd (finishQuiz True 3000 [] sampleRoomAnswered)))))"
proof -
  have "map (\<lambda>b. (badge_score b, totalPossible b))
     (concat (map badgesOf (snd (snd (finishQuiz True 3000 [] sampleRoomAnswered))))) =
     [(5, 20), (0, 20)]"
    by code_simp
  then show ?thesis
    using badge_totalPossible_is_ten_per_question
      [where ledgerOk = True and now = 3000 and ub = "[]" and room = sampleRoomAnswered]
    by (simp add: list_all_iff del: set_concat)
qed

text \<open>
  Against C10 as stated: the sample quiz has questions of 5 and 15 points, and the
  recorded maximum of its badges, 20, is the score of answering both correctly.
\<close>

theorem totalPossible_right_despite_other_points:
  "list_ex (\<lambda>q. points q \<noteq> 10) (questions (quizData sampleRoomAnswered)) \<and>
   maxScore (questions (quizData sampleRoomAnswered)) = 20 \<and>
   map totalPossible
     (concat (map badgesOf (snd (snd (finishQuiz True 3000 [] sampleRoomAnswered))))) = [20, 20]"
  by code_simp

section \<open>Commands the server accepts in any state\<close>

text \<open>
  Claim C2 at a failing input. The sample quiz has finished and its rewards have been
  distributed; the host sends \<^verbatim>\<open>next-question\<close> once more. \<^verbatim>\<open>finishQuiz\<close> runs again:
  the ledger is asked to pay the same winners and to mint the same badges a second time,
  and each player holds two badges.
\<close>

theorem finish_invoked_twice_dispatches_twice:
  "map_option gameState (roomOf ''ABC123'' sampleFinished) = Some Finished \<and>
   map_option rewardsDistributed (roomOf ''ABC123'' sampleFinished) = Some True \<and>
   badgeCount ''0xalice'' sampleFinished = 1 \<and>
   filter isLedgerCall (snd (on_next_question True 3002 ''sock-h'' sampleFinished)) =
     [LedgerDistribute [''0xalice'', ''0xbob''] [1500000000, 900000000],
      MintBadge \<lparr> badgeType = ''Quiz Champion'', rarity = ''legendary'', badge_score = 5,
                  totalPossible = 20, isSealed = False, badge_position = 1,
                  rewardPercentage = 50 \<rparr> ''0xalice'',
      MintBadge \<lparr> badgeType = ''Quiz Runner-up'', rarity = ''epic'', badge_score = 0,
                  totalPossible = 20, isSealed = False, badge_position = 2,
                  rewardPercentage = 30 \<rparr> ''0xbob''] \<and>
   badgeCount ''0xalice'' (fst (on_next_question True 3002 ''sock-h'' sampleFinished)) = 2"
  by code_simp

text \<open>
  Claim C3 at a failing input. The host's start command succeeds for a room without
  any player, and for a room that is playing its second question, which it sends back to
  the first question.
\<close>

theorem start_accepted_without_players_and_while_playing:
  "map_option players (roomOf ''ABC123'' sampleEmpty) = Some [] \<and>
   fst (snd (post_start 4000 ''ABC123'' ''0xhost'' sampleEmpty)) = Success \<and>
   map_option gameState (roomOf ''ABC123'' (fst (post_start 4000 ''ABC123'' ''0xhost'' sampleEmpty))) =
     Some Playing \<and>
   map_option gameState (roomOf ''ABC123'' sampleSecondQuestion) = Some Playing \<and>
   map_option currentQuestion (roomOf ''ABC123'' sampleSecondQuestion) = Some 1 \<and>
   fst (snd (post_start 4000 ''ABC123'' ''0xhost'' sampleSecondQuestion)) = Success \<and>
   map_option currentQuestion
     (roomOf ''ABC123'' (fst (post_start 4000 ''ABC123'' ''0xhost'' sampleSecondQuestion))) = Some 0 \<and>
   snd (on_start_quiz 4000 ''sock-h'' sampleSecondQuestion) = [QuizStarted 0 30]"
  by code_simp

text \<open>
  Claim C4 at a failing input. A join by a connection that is already a player of the
  room, and a join from a new connection with an address that a player of the room
  already has, are both accepted.
\<close>

theorem duplicate_join_accepted:
  "map_option length (map_option players (roomOf ''ABC123'' sampleLobby)) = Some 3 \<and>
   scoreOf ''ABC123'' ''sock-a'' sampleLobby = Some 0 \<and>
   take 1 (snd (on_join_room 1005 ''sock-a'' ''ABC123'' ''alice'' ''0xalice'' sampleLobby)) =
     [PlayerJoined ''sock-a'' ''alice'' ''0xalice'' 3] \<and>
   take 1 (snd (on_join_room 1005 ''sock-z'' ''ABC123'' ''alice2'' ''0xalice'' sampleLobby)) =
     [PlayerJoined ''sock-z'' ''alice2'' ''0xalice'' 4] \<and>
   filter isError (snd (on_join_room 1005 ''sock-z'' ''ABC123'' ''alice2'' ''0xalice'' sampleLobby)) = []"
  by code_simp

text \<open>
  Claim C5 at a failing input. The timer has finished the sample quiz on its last
  question; the host's \<^verbatim>\<open>next-question\<close> is not refused: the room stays finished while
  its question index moves to 2 and its remaining time to 30, and a second command moves
  the index to 3, past the two questions of the quiz.
\<close>

theorem advance_after_finish_changes_room:
  "map_option gameState (roomOf ''ABC123'' sampleTimedOut) = Some Finished \<and>
   map_option currentQuestion (roomOf ''ABC123'' sampleTimedOut) = Some 1 \<and>
   map_option timeRemaining (roomOf ''ABC123'' sampleTimedOut) = Some 0 \<and>
   length (questions sampleQuiz) = 2 \<and>
   filter isError (snd (on_next_question True 3600 ''sock-h'' sampleTimedOut)) = [] \<and>
   map_option gameState
     (roomOf ''ABC123'' (fst (on_next_question True 3600 ''sock-h'' sampleTimedOut))) = Some Finished \<and>
   map_option currentQuestion
     (roomOf ''ABC123'' (fst (on_next_question True 3600 ''sock-h'' sampleTimedOut))) = Some 2 \<and>
   map_option timeRemaining
     (roomOf ''ABC123'' (fst (on_next_question True 3600 ''sock-h'' sampleTimedOut))) = Some 30 \<and>
   map_option currentQuestion
     (roomOf ''ABC123''
       (fst (on_next_question True 3601 ''sock-h''
         (fst (on_next_question True 3600 ''sock-h'' sampleTimedOut))))) = Some 3"
  by code_simp

text \<open>
  Claim C9 at a failing input. The host advances the sample quiz past its last question.
  The leaderboard sent with \<^verbatim>\<open>quiz-finished\<close> leaves out the host and is in descending
  order of score, but its entries are the stored player objects: they carry no position,
  while the leaderboard computed for the room in the same step, and the one a
  \<^verbatim>\<open>leaderboard-update\<close> would carry, number the same players 1 and 2.
\<close>

theorem finish_broadcast_carries_no_positions:
  "take 1 (snd (on_next_question True 3001 ''sock-h'' sampleSecondQuestion)) =
     [QuizFinished
        [\<lparr> pid = ''sock-a'', nickname = ''alice'', address = ''0xalice'', score = 5,
            answers = [(0, 1)], joinedAt = 1002, isReady = False \<rparr>,
         \<lparr> pid = ''sock-b'', nickname = ''bob'', address = ''0xbob'', score = 0,
            answers = [], joinedAt = 1003, isReady = False \<rparr>]
        2 2] \<and>
   map_option (map position)
     (map_option leaderboard
       (roomOf ''ABC123'' (fst (on_next_question True 3001 ''sock-h'' sampleSecondQuestion)))) =
     Some [1, 2] \<and>
   map_option (map row_position)
     (map_option broadcastLeaderboard
       (roomOf ''ABC123'' (fst (on_next_question True 3001 ''sock-h'' sampleSecondQuestion)))) =
     Some [1, 2]"
  by code_simp

end
